theory Spec2Isabelle
  imports Main "HOL-Library.Word" "HOL-Library.Sublist"
begin

section \<open>Data model of package s3preup (s3.go)\<close>

text \<open>
  Go's \<^verbatim>\<open>time.Duration\<close> is an \<^verbatim>\<open>int64\<close> count of nanoseconds; it is read as a
  signed number with \<open>sint\<close>. A Go string is a sequence of bytes, here a \<open>string\<close>.
\<close>

type_synonym duration = "64 word"

definition Second :: duration where
  "Second = 1000000000"

definition Minute :: duration where
  "Minute = 60 * Second"

text \<open>
  A Go call either returns its results or panics (a nil pointer dereference in
  \<^verbatim>\<open>PresignedUploadURL\<close>, or a panic raised inside the signing client).
\<close>

datatype 'a outcome = Panic | Returns 'a

text \<open>
  Modelled from the spec: the type \<^verbatim>\<open>s3.PutObjectInput\<close> is declared by the AWS SDK, not
  by this repository. The record keeps the two fields the source sets and the fields the
  specification names as left unset (content type, content length, ACL, checksums,
  metadata). A pointer field is an \<open>option\<close> (\<open>None\<close> is nil), the ACL enumeration is a
  string whose zero value is empty, the metadata map is an association list.
\<close>

record PutObjectInput =
  Bucket :: "string option"
  Key :: "string option"
  ACL :: string
  ContentLength :: "64 word option"
  ContentMD5 :: "string option"
  ContentType :: "string option"
  ChecksumCRC32 :: "string option"
  ChecksumCRC32C :: "string option"
  ChecksumSHA1 :: "string option"
  ChecksumSHA256 :: "string option"
  Metadata :: "(string \<times> string) list"

text \<open>The zero value of the struct: what a Go composite literal leaves in the fields it does not name.\<close>

definition PutObjectInput_zero :: PutObjectInput where
  "PutObjectInput_zero =
     \<lparr>Bucket = None, Key = None, ACL = [], ContentLength = None, ContentMD5 = None,
      ContentType = None, ChecksumCRC32 = None, ChecksumCRC32C = None, ChecksumSHA1 = None,
      ChecksumSHA256 = None, Metadata = []\<rparr>"

text \<open>
  Modelled from the spec: \<^verbatim>\<open>s3.PresignOptions\<close> is declared by the AWS SDK. The source
  touches its field \<^verbatim>\<open>Expires\<close> only; whatever else the struct holds is the record's
  extension part, of an arbitrary type.
\<close>

record PresignOptions =
  Expires :: duration

text \<open>
  Modelled from the spec: the SDK's \<^verbatim>\<open>v4.PresignedHTTPRequest\<close>, of which the source reads
  the field \<^verbatim>\<open>URL\<close>.
\<close>

record PresignedHTTPRequest =
  URL :: string
  Method :: string
  SignedHeader :: "(string \<times> string list) list"

text \<open>\<^verbatim>\<open>aws.String\<close> returns a pointer to a copy of its argument.\<close>

definition aws_String :: "string \<Rightarrow> string option" where
  "aws_String v = Some v"

text \<open>\<^verbatim>\<open>config.WithRegion\<close> builds a load option that carries the region.\<close>

datatype LoadOption = WithRegion string

text \<open>
  \<^verbatim>\<open>S3Provider\<close>: the bucket name and a pointer to the SDK's presign client. The client
  itself is an opaque value of type \<open>'pc\<close>.
\<close>

record 'pc S3Provider =
  bucket :: string
  presignClient :: "'pc option"

text \<open>
  The program state: the providers allocated so far (a \<^verbatim>\<open>*S3Provider\<close> is an index into
  this list, or nil) and the state of the SDK, of an arbitrary type \<open>'s\<close>. The SDK's
  functions see and change the second component only: the fields of \<^verbatim>\<open>S3Provider\<close> are
  unexported and no pointer to a provider is ever passed to the SDK.
\<close>

record ('pc, 's) world =
  heap :: "'pc S3Provider list"
  sdk :: 's

type_synonym ptr = "nat option"

text \<open>
  Reading through a pointer: nil has nothing to read, and the method call panics. Go has no
  dangling pointers; an index beyond the list is treated like nil.
\<close>

definition deref :: "'a list \<Rightarrow> ptr \<Rightarrow> 'a option" where
  "deref h p = (case p of None \<Rightarrow> None
                | Some a \<Rightarrow> if a < length h then Some (h ! a) else None)"

text \<open>
  The collaborators, taken as parameters. \<^verbatim>\<open>PresignPutObject\<close> is a method of the presign
  client: it receives the client pointer, the context, the request and the option
  functions, and returns a request pointer and an error (or panics). A nil client pointer
  reaches the method as its receiver, as in Go, and the method decides what happens.
  \<^verbatim>\<open>config.LoadDefaultConfig\<close> receives the context and the load options and returns a
  configuration and an error.
\<close>

type_synonym ('pc, 'ctx, 'o, 'err, 's) presigner =
  "'pc option \<Rightarrow> 'ctx \<Rightarrow> PutObjectInput \<Rightarrow>
   ('o PresignOptions_scheme \<Rightarrow> 'o PresignOptions_scheme) list \<Rightarrow> 's \<Rightarrow>
   (PresignedHTTPRequest option \<times> 'err option) outcome \<times> 's"

type_synonym ('ctx, 'cfg, 'err, 's) loader =
  "'ctx \<Rightarrow> LoadOption list \<Rightarrow> 's \<Rightarrow> ('cfg \<times> 'err option) \<times> 's"

section \<open>The operations of s3.go\<close>

text \<open>
  \<^verbatim>\<open>New\<close>: load the configuration with the region as an override; on an error return nil
  and the error; otherwise build the S3 client and the presign client and return a pointer
  to a new provider.
\<close>

definition New ::
  "('ctx, 'cfg, 'err, 's) loader \<Rightarrow> ('cfg \<Rightarrow> 'cl) \<Rightarrow> ('cl \<Rightarrow> 'pc) \<Rightarrow>
   'ctx \<Rightarrow> string \<Rightarrow> string \<Rightarrow> ('pc, 's) world \<Rightarrow> (ptr \<times> 'err option) \<times> ('pc, 's) world" where
  "New LoadDefaultConfig NewFromConfig NewPresignClient ctx bkt region w =
     (case LoadDefaultConfig ctx [WithRegion region] (sdk w) of
        ((cfg, err), s') \<Rightarrow>
          if err \<noteq> None then ((None, err), w\<lparr>sdk := s'\<rparr>)
          else
            let s3Client = NewFromConfig cfg;
                pc = NewPresignClient s3Client
            in ((Some (length (heap w)), None),
                \<lparr>heap = heap w @ [\<lparr>bucket = bkt, presignClient = Some pc\<rparr>], sdk = s'\<rparr>))"

text \<open>
  \<^verbatim>\<open>PresignedUploadURL\<close>: dereference the receiver, call \<^verbatim>\<open>PresignPutObject\<close> with a
  request that names the bucket and the key and with one option function that sets
  \<^verbatim>\<open>Expires\<close>; on an error return the empty string and the error; otherwise return the
  URL of the presigned request.
\<close>

definition PresignedUploadURL ::
  "('pc, 'ctx, 'o, 'err, 's) presigner \<Rightarrow> ptr \<Rightarrow> 'ctx \<Rightarrow> string \<Rightarrow> duration \<Rightarrow>
   ('pc, 's) world \<Rightarrow> (string \<times> 'err option) outcome \<times> ('pc, 's) world" where
  "PresignedUploadURL PresignPutObject p ctx destination expires w =
     (case deref (heap w) p of
        None \<Rightarrow> (Panic, w)
      | Some prov \<Rightarrow>
          (case PresignPutObject (presignClient prov) ctx
                  (PutObjectInput_zero\<lparr>Bucket := aws_String (bucket prov),
                                       Key := aws_String destination\<rparr>)
                  [\<lambda>po. po\<lparr>Expires := expires\<rparr>] (sdk w) of
             (Panic, s') \<Rightarrow> (Panic, w\<lparr>sdk := s'\<rparr>)
           | (Returns (presignedPutRequest, err), s') \<Rightarrow>
               if err \<noteq> None then (Returns ([], err), w\<lparr>sdk := s'\<rparr>)
               else (case presignedPutRequest of
                       None \<Rightarrow> (Panic, w\<lparr>sdk := s'\<rparr>)
                     | Some r \<Rightarrow> (Returns (URL r, None), w\<lparr>sdk := s'\<rparr>))))"

section \<open>Test doubles, after the test file\<close>

text \<open>
  The mock of the test file answers every call with the configured pair and leaves its
  state alone; the real client returns a request pointer where the mock returns the URL
  itself, so the configured URL is wrapped in a presigned request for a PUT.
\<close>

definition mockPresignClient ::
  "string \<Rightarrow> 'err option \<Rightarrow> ('pc, 'ctx, 'o, 'err, 's) presigner" where
  "mockPresignClient url err = (\<lambda>rcv ctx params optFns s.
     (Returns (Some \<lparr>URL = url, Method = ''PUT'', SignedHeader = []\<rparr>, err), s))"

text \<open>
  A client that records every call it receives, as \<^verbatim>\<open>mock.Called\<close> does, and then
  behaves as the client it wraps. The record is kept beside the state of the wrapped client.
\<close>

type_synonym ('pc, 'ctx, 'o) call =
  "'pc option \<times> 'ctx \<times> PutObjectInput \<times> ('o PresignOptions_scheme \<Rightarrow> 'o PresignOptions_scheme) list"

definition recording ::
  "('pc, 'ctx, 'o, 'err, 's) presigner \<Rightarrow>
   ('pc, 'ctx, 'o, 'err, 's \<times> ('pc, 'ctx, 'o) call list) presigner" where
  "recording c = (\<lambda>rcv ctx params optFns (s, calls).
     (case c rcv ctx params optFns s of
        (r, s') \<Rightarrow> (r, (s', calls @ [(rcv, ctx, params, optFns)]))))"

text \<open>The SDK applies the option functions in order to its default options.\<close>

definition applyOptions ::
  "('o PresignOptions_scheme \<Rightarrow> 'o PresignOptions_scheme) list \<Rightarrow>
   'o PresignOptions_scheme \<Rightarrow> 'o PresignOptions_scheme" where
  "applyOptions optFns po = fold (\<lambda>fn acc. fn acc) optFns po"

text \<open>A driver that issues a list of calls on one provider, one after the other.\<close>

fun runCalls ::
  "('pc, 'ctx, 'o, 'err, 's) presigner \<Rightarrow> ptr \<Rightarrow> ('ctx \<times> string \<times> duration) list \<Rightarrow>
   ('pc, 's) world \<Rightarrow> (string \<times> 'err option) outcome list \<times> ('pc, 's) world" where
  "runCalls c p [] w = ([], w)"
| "runCalls c p ((ctx, destination, expires) # cs) w =
     (case PresignedUploadURL c p ctx destination expires w of
        (r, w') \<Rightarrow> (case runCalls c p cs w' of (rs, w'') \<Rightarrow> (r # rs, w'')))"

text \<open>A configuration loader that answers with the load options it was given and a fixed error.\<close>

definition stubLoadDefaultConfig :: "'err option \<Rightarrow> ('ctx, LoadOption list, 'err, 's) loader" where
  "stubLoadDefaultConfig err = (\<lambda>ctx opts s. ((opts, err), s))"

text \<open>The fixture of the tests: one provider for the bucket \<^verbatim>\<open>test-bucket\<close>.\<close>

definition testWorld :: "'s \<Rightarrow> (unit, 's) world" where
  "testWorld s = \<lparr>heap = [\<lparr>bucket = ''test-bucket'', presignClient = Some ()\<rparr>], sdk = s\<rparr>"

definition expectedURL :: string where
  "expectedURL = ''https://test-bucket.s3.amazonaws.com/uploads/test-file.txt''"

text \<open>
  A URL for the key \<^verbatim>\<open>uploads/my file.txt\<close> in which the space of the key is
  percent-encoded, as the escaping of a URL path writes it.
\<close>

definition escapedURL :: string where
  "escapedURL = ''https://test-bucket.s3.amazonaws.com/uploads/my%20file.txt''"

text \<open>\<^verbatim>\<open>strings.Contains\<close>: the second string occurs in the first as a contiguous run.\<close>

definition Contains :: "string \<Rightarrow> string \<Rightarrow> bool" where
  "Contains s substr = sublist substr s"

text \<open>
  What \<^verbatim>\<open>PresignedUploadURL\<close> makes of the client's answer (lines 54 to 58 of s3.go),
  written out once for the statements below; the lemma \<open>PresignedUploadURL_unfold\<close> derives
  it from the definition of the operation.
\<close>

definition answer ::
  "(PresignedHTTPRequest option \<times> 'err option) outcome \<Rightarrow> (string \<times> 'err option) outcome" where
  "answer r = (case r of
       Panic \<Rightarrow> Panic
     | Returns (req, Some e) \<Rightarrow> Returns ([], Some e)
     | Returns (None, None) \<Rightarrow> Panic
     | Returns (Some req, None) \<Rightarrow> Returns (URL req, None))"

section \<open>Error propagation\<close>

text \<open>
  C1. When the signing client's PresignPutObject returns an error \<open>e\<close>, PresignedUploadURL
  returns the empty string together with exactly \<open>e\<close>, whatever request pointer came with
  the error (no partial result); the client is called once and the SDK state is the one
  that single call left (no retry).
\<close>

theorem PresignedUploadURL_error:
  assumes "deref (heap w) p = Some prov"
    and "PresignPutObject (presignClient prov) ctx
           (PutObjectInput_zero\<lparr>Bucket := aws_String (bucket prov),
                                Key := aws_String destination\<rparr>)
           [\<lambda>po. po\<lparr>Expires := expires\<rparr>] (sdk w) = (Returns (r, Some e), s')"
  shows "PresignedUploadURL PresignPutObject p ctx destination expires w
           = (Returns ([], Some e), w\<lparr>sdk := s'\<rparr>)"
  using assms by (simp add: PresignedUploadURL_def)

theorem PresignedUploadURL_error_witness:
  "deref (heap (testWorld ())) (Some 0) = Some \<lparr>bucket = ''test-bucket'', presignClient = Some ()\<rparr>
   \<and> (mockPresignClient ''partial'' (Some ''presign error'')
         :: (unit, unit, unit, string, unit) presigner)
        (Some ()) ()
        (PutObjectInput_zero\<lparr>Bucket := aws_String ''test-bucket'',
                             Key := aws_String ''uploads/test-file.txt''\<rparr>)
        [\<lambda>po. po\<lparr>Expires := 15 * Minute\<rparr>] ()
       = (Returns (Some \<lparr>URL = ''partial'', Method = ''PUT'', SignedHeader = []\<rparr>,
                   Some ''presign error''), ())
   \<and> PresignedUploadURL
        (mockPresignClient ''partial'' (Some ''presign error'')
           :: (unit, unit, unit, string, unit) presigner)
        (Some 0) () ''uploads/test-file.txt'' (15 * Minute) (testWorld ())
       = (Returns ([], Some ''presign error''), testWorld ())"
proof -
  let ?c = "mockPresignClient ''partial'' (Some ''presign error'')
              :: (unit, unit, unit, string, unit) presigner"
  have h1: "deref (heap (testWorld ())) (Some 0)
              = Some \<lparr>bucket = ''test-bucket'', presignClient = Some ()\<rparr>"
    by (simp add: deref_def testWorld_def)
  have h2: "?c (presignClient \<lparr>bucket = ''test-bucket'', presignClient = Some ()\<rparr>) ()
        (PutObjectInput_zero\<lparr>Bucket := aws_String (bucket \<lparr>bucket = ''test-bucket'', presignClient = Some ()\<rparr>),
                             Key := aws_String ''uploads/test-file.txt''\<rparr>)
        [\<lambda>po. po\<lparr>Expires := 15 * Minute\<rparr>] (sdk (testWorld ()))
       = (Returns (Some \<lparr>URL = ''partial'', Method = ''PUT'', SignedHeader = []\<rparr>,
                   Some ''presign error''), ())"
    by (simp add: mockPresignClient_def)
  from PresignedUploadURL_error [where PresignPutObject = ?c and destination = "''uploads/test-file.txt''"
         and expires = "15 * Minute" and ctx = "()", OF h1 h2] h1 h2
  show ?thesis
    by (simp add: testWorld_def)
qed

section \<open>Results\<close>

text \<open>
  C2. When the signing client's PresignPutObject succeeds with a request whose URL is \<open>u\<close>,
  PresignedUploadURL returns exactly \<open>u\<close> and no error. The witness is the scenario of the
  test: bucket \<^verbatim>\<open>test-bucket\<close>, key \<^verbatim>\<open>uploads/test-file.txt\<close>, fifteen minutes.
\<close>

theorem PresignedUploadURL_success:
  assumes "deref (heap w) p = Some prov"
    and "PresignPutObject (presignClient prov) ctx
           (PutObjectInput_zero\<lparr>Bucket := aws_String (bucket prov),
                                Key := aws_String destination\<rparr>)
           [\<lambda>po. po\<lparr>Expires := expires\<rparr>] (sdk w) = (Returns (Some r, None), s')"
    and "URL r = u"
  shows "PresignedUploadURL PresignPutObject p ctx destination expires w
           = (Returns (u, None), w\<lparr>sdk := s'\<rparr>)"
  using assms by (simp add: PresignedUploadURL_def)

theorem PresignedUploadURL_success_witness:
  "PresignedUploadURL
      (mockPresignClient expectedURL None :: (unit, unit, unit, string, unit) presigner)
      (Some 0) () ''uploads/test-file.txt'' (15 * Minute) (testWorld ())
     = (Returns (''https://test-bucket.s3.amazonaws.com/uploads/test-file.txt'', None),
        testWorld ())"
proof -
  let ?c = "mockPresignClient expectedURL None :: (unit, unit, unit, string, unit) presigner"
  let ?r = "\<lparr>URL = expectedURL, Method = ''PUT'', SignedHeader = []\<rparr>"
  have h1: "deref (heap (testWorld ())) (Some 0)
              = Some \<lparr>bucket = ''test-bucket'', presignClient = Some ()\<rparr>"
    by (simp add: deref_def testWorld_def)
  have h2: "?c (presignClient \<lparr>bucket = ''test-bucket'', presignClient = Some ()\<rparr>) ()
        (PutObjectInput_zero\<lparr>Bucket := aws_String (bucket \<lparr>bucket = ''test-bucket'', presignClient = Some ()\<rparr>),
                             Key := aws_String ''uploads/test-file.txt''\<rparr>)
        [\<lambda>po. po\<lparr>Expires := 15 * Minute\<rparr>] (sdk (testWorld ()))
       = (Returns (Some ?r, None), ())"
    by (simp add: mockPresignClient_def)
  have h3: "URL ?r = ''https://test-bucket.s3.amazonaws.com/uploads/test-file.txt''"
    by (simp add: expectedURL_def)
  from PresignedUploadURL_success [where PresignPutObject = ?c and destination = "''uploads/test-file.txt''"
         and expires = "15 * Minute" and ctx = "()", OF h1 h2 h3]
  show ?thesis
    by (simp add: testWorld_def)
qed

section \<open>The request handed to the signing client\<close>

lemma PresignedUploadURL_unfold:
  assumes "deref (heap w) p = Some prov"
  shows "PresignedUploadURL c p ctx destination expires w =
           (case c (presignClient prov) ctx
                   (PutObjectInput_zero\<lparr>Bucket := Some (bucket prov), Key := Some destination\<rparr>)
                   [\<lambda>po. po\<lparr>Expires := expires\<rparr>] (sdk w) of
              (r, s') \<Rightarrow> (answer r, w\<lparr>sdk := s'\<rparr>))"
  using assms
  by (simp add: PresignedUploadURL_def answer_def aws_String_def
           split: prod.splits outcome.splits option.splits)

lemma PresignedUploadURL_recording:
  assumes "deref (heap w) p = Some prov"
  shows "PresignedUploadURL (recording c) p ctx destination expires w =
           (answer (fst (c (presignClient prov) ctx
                   (PutObjectInput_zero\<lparr>Bucket := Some (bucket prov), Key := Some destination\<rparr>)
                   [\<lambda>po. po\<lparr>Expires := expires\<rparr>] (fst (sdk w)))),
            w\<lparr>sdk := (snd (c (presignClient prov) ctx
                   (PutObjectInput_zero\<lparr>Bucket := Some (bucket prov), Key := Some destination\<rparr>)
                   [\<lambda>po. po\<lparr>Expires := expires\<rparr>] (fst (sdk w))),
                   snd (sdk w) @ [(presignClient prov, ctx,
                      PutObjectInput_zero\<lparr>Bucket := Some (bucket prov), Key := Some destination\<rparr>,
                      [\<lambda>po. po\<lparr>Expires := expires\<rparr>])])\<rparr>)"
  by (simp add: PresignedUploadURL_unfold [OF assms] recording_def split: prod.splits)

lemma PresignedUploadURL_heap:
  "heap (snd (PresignedUploadURL c p ctx destination expires w)) = heap w"
  by (simp add: PresignedUploadURL_def split: prod.splits outcome.splits option.splits)

text \<open>
  C4. For every destination and every expiry, with no validation or clamping of either,
  PresignedUploadURL calls the signing client exactly once, with the destination as the
  request's Key and with option functions that set Expires to the given expiry and leave the
  other options alone; the result is made from the client's answer alone. The witness takes
  a path-traversal key and a negative expiry.
\<close>

theorem PresignedUploadURL_forwards:
  assumes "deref (heap w) p = Some prov"
  shows "\<exists>rcv params optFns.
           snd (sdk (snd (PresignedUploadURL (recording c) p ctx destination expires w)))
             = snd (sdk w) @ [(rcv, ctx, params, optFns)]
         \<and> Key params = Some destination
         \<and> (\<forall>po. applyOptions optFns po = po\<lparr>Expires := expires\<rparr>)
         \<and> fst (PresignedUploadURL (recording c) p ctx destination expires w)
             = answer (fst (c rcv ctx params optFns (fst (sdk w))))"
  by (simp add: PresignedUploadURL_recording [OF assms] applyOptions_def)

theorem PresignedUploadURL_forwards_witness:
  "sint (- Second) < 0
   \<and> deref (heap (testWorld ((), []))) (Some 0)
       = Some \<lparr>bucket = ''test-bucket'', presignClient = Some ()\<rparr>
   \<and> (\<exists>rcv params optFns.
         snd (sdk (snd (PresignedUploadURL
               (recording (mockPresignClient expectedURL None
                  :: (unit, unit, unit, string, unit) presigner))
               (Some 0) () ''../../etc/passwd'' (- Second) (testWorld ((), [])))))
           = [(rcv, (), params, optFns)]
         \<and> Key params = Some ''../../etc/passwd''
         \<and> (\<forall>po. applyOptions optFns po = po\<lparr>Expires := - Second\<rparr>)
         \<and> fst (PresignedUploadURL
               (recording (mockPresignClient expectedURL None
                  :: (unit, unit, unit, string, unit) presigner))
               (Some 0) () ''../../etc/passwd'' (- Second) (testWorld ((), [])))
           = Returns (expectedURL, None))"
proof -
  let ?c = "mockPresignClient expectedURL None :: (unit, unit, unit, string, unit) presigner"
  have neg: "sint (- Second) < 0"
    by (simp add: Second_def)
  have h1: "deref (heap (testWorld ((), []))) (Some 0)
              = Some \<lparr>bucket = ''test-bucket'', presignClient = Some ()\<rparr>"
    by (simp add: deref_def testWorld_def)
  have ans: "answer (fst (?c rcv () params optFns (fst (sdk (testWorld ((), []))))))
               = Returns (expectedURL, None)" for rcv params optFns
    by (simp add: mockPresignClient_def answer_def)
  have log: "snd (sdk (testWorld ((), []))) = []"
    by (simp add: testWorld_def)
  from PresignedUploadURL_forwards [where c = ?c and ctx = "()"
      and destination = "''../../etc/passwd''" and expires = "- Second", OF h1]
  show ?thesis unfolding ans log using neg h1 by simp
qed

text \<open>
  C8. A call to PresignedUploadURL, whatever its outcome, leaves every provider as it was:
  the list of providers is unchanged, so the bucket and the presign client pointer of each
  provider are the ones it had before the call.
\<close>

theorem PresignedUploadURL_frame:
  "heap (snd (PresignedUploadURL c p ctx destination expires w)) = heap w
   \<and> (\<forall>a prov. deref (heap w) (Some a) = Some prov \<longrightarrow>
        (\<exists>prov'. deref (heap (snd (PresignedUploadURL c p ctx destination expires w))) (Some a)
                    = Some prov'
                \<and> bucket prov' = bucket prov \<and> presignClient prov' = presignClient prov))"
  by (simp add: PresignedUploadURL_heap)

theorem PresignedUploadURL_frame_witness:
  "heap (snd (PresignedUploadURL
            (mockPresignClient [] (Some ''presign error'')
               :: (unit, unit, unit, string, unit) presigner)
            (Some 0) () ''uploads/test-file.txt'' (15 * Minute) (testWorld ())))
     = [\<lparr>bucket = ''test-bucket'', presignClient = Some ()\<rparr>]
   \<and> (\<exists>prov'. deref (heap (snd (PresignedUploadURL
            (mockPresignClient [] (Some ''presign error'')
               :: (unit, unit, unit, string, unit) presigner)
            (Some 0) () ''uploads/test-file.txt'' (15 * Minute) (testWorld ())))) (Some 0)
          = Some prov'
        \<and> bucket prov' = ''test-bucket'' \<and> presignClient prov' = Some ())"
proof -
  have h1: "deref (heap (testWorld ())) (Some 0)
              = Some \<lparr>bucket = ''test-bucket'', presignClient = Some ()\<rparr>"
    by (simp add: deref_def testWorld_def)
  have h: "heap (testWorld ()) = [\<lparr>bucket = ''test-bucket'', presignClient = Some ()\<rparr>]"
    by (simp add: testWorld_def)
  from PresignedUploadURL_frame [where c = "mockPresignClient [] (Some ''presign error'')
               :: (unit, unit, unit, string, unit) presigner" and p = "Some 0" and ctx = "()"
      and destination = "''uploads/test-file.txt''" and expires = "15 * Minute"
      and w = "testWorld ()"] h1 h
  show ?thesis by auto
qed

text \<open>
  C9. The PutObjectInput handed to the signing client has the Bucket and the Key set and
  every other field at its zero value: no ACL, content length, content MD5, content type,
  checksum or metadata.
\<close>

theorem PresignedUploadURL_request_fields:
  assumes "deref (heap w) p = Some prov"
  shows "\<exists>rcv params optFns.
           snd (sdk (snd (PresignedUploadURL (recording c) p ctx destination expires w)))
             = snd (sdk w) @ [(rcv, ctx, params, optFns)]
         \<and> Bucket params = Some (bucket prov) \<and> Key params = Some destination
         \<and> ACL params = [] \<and> ContentLength params = None \<and> ContentMD5 params = None
         \<and> ContentType params = None \<and> ChecksumCRC32 params = None
         \<and> ChecksumCRC32C params = None \<and> ChecksumSHA1 params = None
         \<and> ChecksumSHA256 params = None \<and> Metadata params = []"
  by (simp add: PresignedUploadURL_recording [OF assms] PutObjectInput_zero_def)

theorem PresignedUploadURL_request_fields_witness:
  "deref (heap (testWorld ((), []))) (Some 0)
       = Some \<lparr>bucket = ''test-bucket'', presignClient = Some ()\<rparr>
   \<and> (\<exists>rcv params optFns.
         snd (sdk (snd (PresignedUploadURL
               (recording (mockPresignClient expectedURL None
                  :: (unit, unit, unit, string, unit) presigner))
               (Some 0) () ''uploads/test-file.txt'' (15 * Minute) (testWorld ((), [])))))
           = [(rcv, (), params, optFns)]
         \<and> Bucket params = Some ''test-bucket'' \<and> Key params = Some ''uploads/test-file.txt''
         \<and> ACL params = [] \<and> ContentLength params = None \<and> ContentMD5 params = None
         \<and> ContentType params = None \<and> ChecksumCRC32 params = None
         \<and> ChecksumCRC32C params = None \<and> ChecksumSHA1 params = None
         \<and> ChecksumSHA256 params = None \<and> Metadata params = [])"
proof -
  let ?c = "mockPresignClient expectedURL None :: (unit, unit, unit, string, unit) presigner"
  have h1: "deref (heap (testWorld ((), []))) (Some 0)
              = Some \<lparr>bucket = ''test-bucket'', presignClient = Some ()\<rparr>"
    by (simp add: deref_def testWorld_def)
  have log: "snd (sdk (testWorld ((), []))) = []"
    by (simp add: testWorld_def)
  from PresignedUploadURL_request_fields [where c = ?c and ctx = "()"
      and destination = "''uploads/test-file.txt''" and expires = "15 * Minute", OF h1]
  show ?thesis unfolding log using h1 by simp
qed

section \<open>Construction\<close>

text \<open>
  C5. When the configuration load fails with the error \<open>e\<close>, New returns a nil provider
  together with exactly \<open>e\<close>, for every context, bucket and region; no provider is allocated.
\<close>

theorem New_config_error:
  assumes "LoadDefaultConfig ctx [WithRegion region] (sdk w) = ((cfg, Some e), s')"
  shows "New LoadDefaultConfig NewFromConfig NewPresignClient ctx bkt region w
           = ((None, Some e), w\<lparr>sdk := s'\<rparr>)"
  using assms by (simp add: New_def)

theorem New_config_error_witness:
  "stubLoadDefaultConfig (Some ''failed to resolve credentials'') ()
       [WithRegion ''nowhere-1''] (sdk (testWorld ()))
     = (([WithRegion ''nowhere-1''], Some ''failed to resolve credentials''), ())
   \<and> New (stubLoadDefaultConfig (Some ''failed to resolve credentials'')) (\<lambda>cfg. cfg) (\<lambda>cl. ())
         () ''test-bucket'' ''nowhere-1'' (testWorld ())
       = ((None, Some ''failed to resolve credentials''), testWorld ())"
proof -
  have h: "stubLoadDefaultConfig (Some ''failed to resolve credentials'') ()
       [WithRegion ''nowhere-1''] (sdk (testWorld ()))
     = (([WithRegion ''nowhere-1''], Some ''failed to resolve credentials''), ())"
    by (simp add: stubLoadDefaultConfig_def)
  from New_config_error [where LoadDefaultConfig = "stubLoadDefaultConfig (Some ''failed to resolve credentials'')"
      and NewFromConfig = "\<lambda>cfg. cfg" and NewPresignClient = "\<lambda>cl. ()"
      and bkt = "''test-bucket''", OF h] h
  show ?thesis by (simp add: testWorld_def)
qed

text \<open>
  C10. New does not look at the bucket: it returns a nil error exactly when the configuration
  load does, its error is the same for any two bucket strings, and on success the provider it
  returns holds the given bucket string as it is, the empty string included.
\<close>

theorem New_no_bucket_validation:
  "(snd (fst (New LoadDefaultConfig NewFromConfig NewPresignClient ctx bkt region w)) = None
      \<longleftrightarrow> snd (fst (LoadDefaultConfig ctx [WithRegion region] (sdk w))) = None)
   \<and> snd (fst (New LoadDefaultConfig NewFromConfig NewPresignClient ctx bkt region w))
       = snd (fst (New LoadDefaultConfig NewFromConfig NewPresignClient ctx bkt' region w))
   \<and> (snd (fst (New LoadDefaultConfig NewFromConfig NewPresignClient ctx bkt region w)) = None
        \<longrightarrow> (\<exists>prov. deref (heap (snd (New LoadDefaultConfig NewFromConfig NewPresignClient ctx bkt region w)))
                        (fst (fst (New LoadDefaultConfig NewFromConfig NewPresignClient ctx bkt region w)))
                      = Some prov
                  \<and> bucket prov = bkt
                  \<and> presignClient prov = Some (NewPresignClient (NewFromConfig
                        (fst (fst (LoadDefaultConfig ctx [WithRegion region] (sdk w))))))))"
  by (simp add: New_def deref_def Let_def split: prod.splits)

theorem New_no_bucket_validation_witness:
  "snd (fst (New (stubLoadDefaultConfig (None :: string option)) (\<lambda>cfg. cfg) (\<lambda>cl. ())
               () [] ''us-east-1'' (testWorld ()))) = None
   \<and> deref (heap (snd (New (stubLoadDefaultConfig (None :: string option)) (\<lambda>cfg. cfg) (\<lambda>cl. ())
                          () [] ''us-east-1'' (testWorld ()))))
            (fst (fst (New (stubLoadDefaultConfig (None :: string option)) (\<lambda>cfg. cfg) (\<lambda>cl. ())
                          () [] ''us-east-1'' (testWorld ()))))
       = Some \<lparr>bucket = [], presignClient = Some ()\<rparr>
   \<and> snd (fst (New (stubLoadDefaultConfig (None :: string option)) (\<lambda>cfg. cfg) (\<lambda>cl. ())
               () [] ''us-east-1'' (testWorld ())))
       = snd (fst (New (stubLoadDefaultConfig (None :: string option)) (\<lambda>cfg. cfg) (\<lambda>cl. ())
               () ''test-bucket'' ''us-east-1'' (testWorld ())))"
proof -
  have ok: "snd (fst (stubLoadDefaultConfig (None :: string option) ()
                        [WithRegion ''us-east-1''] (sdk (testWorld ())))) = None"
    by (simp add: stubLoadDefaultConfig_def)
  from New_no_bucket_validation [where LoadDefaultConfig = "stubLoadDefaultConfig (None :: string option)"
      and NewFromConfig = "\<lambda>cfg. cfg" and NewPresignClient = "\<lambda>cl. ()" and ctx = "()"
      and bkt = "[]" and bkt' = "''test-bucket''" and region = "''us-east-1''"
      and w = "testWorld ()"] ok
  show ?thesis by auto
qed

section \<open>What the URL contains\<close>

text \<open>
  A successful call whose URL does not contain the key: the signing client answers with a
  URL in which the space of the key is percent-encoded, and PresignedUploadURL returns it.
\<close>

theorem PresignedUploadURL_escaped_key_counterexample:
  "0 <s 15 * Minute
   \<and> PresignedUploadURL
        (mockPresignClient escapedURL None :: (unit, unit, unit, string, unit) presigner)
        (Some 0) () ''uploads/my file.txt'' (15 * Minute) (testWorld ())
       = (Returns (escapedURL, None), testWorld ())
   \<and> \<not> Contains escapedURL ''uploads/my file.txt''"
proof -
  have a: "(0::64 word) <s 15 * Minute"
    by (simp add: Minute_def Second_def word_sless_alt)
  have b: "PresignedUploadURL
        (mockPresignClient escapedURL None :: (unit, unit, unit, string, unit) presigner)
        (Some 0) () ''uploads/my file.txt'' (15 * Minute) (testWorld ())
       = (Returns (escapedURL, None), testWorld ())"
    by (simp add: PresignedUploadURL_def mockPresignClient_def testWorld_def deref_def)
  have c: "\<not> Contains escapedURL ''uploads/my file.txt''"
    unfolding Contains_def escapedURL_def by code_simp
  from a b c show ?thesis by simp
qed

text \<open>
  C3, as amended. Every successful call returns exactly the URL of the request the signing
  client produced for it, unchanged, whatever the bucket, the key and the expiry; so the
  result is non-empty and contains the bucket name and the key exactly when the signing
  client's URL is non-empty and contains them.
\<close>

theorem PresignedUploadURL_url_of_client:
  assumes "deref (heap w) p = Some prov"
    and "PresignedUploadURL c p ctx destination expires w = (Returns (u, None), w')"
  shows "\<exists>r s'. c (presignClient prov) ctx
                   (PutObjectInput_zero\<lparr>Bucket := Some (bucket prov), Key := Some destination\<rparr>)
                   [\<lambda>po. po\<lparr>Expires := expires\<rparr>] (sdk w) = (Returns (Some r, None), s')
               \<and> u = URL r \<and> w' = w\<lparr>sdk := s'\<rparr>
               \<and> ((u \<noteq> [] \<and> Contains u (bucket prov) \<and> Contains u destination)
                    \<longleftrightarrow> (URL r \<noteq> [] \<and> Contains (URL r) (bucket prov)
                          \<and> Contains (URL r) destination))"
proof -
  obtain r s' where call: "c (presignClient prov) ctx
                   (PutObjectInput_zero\<lparr>Bucket := Some (bucket prov), Key := Some destination\<rparr>)
                   [\<lambda>po. po\<lparr>Expires := expires\<rparr>] (sdk w) = (Returns (Some r, None), s')"
    and u: "u = URL r" and w': "w' = w\<lparr>sdk := s'\<rparr>"
    using assms(2)
    by (auto simp: PresignedUploadURL_unfold [OF assms(1)] answer_def
             split: prod.splits outcome.splits option.splits)
  from call u w' show ?thesis by auto
qed

theorem PresignedUploadURL_url_of_client_witness:
  "(\<exists>r s'. (mockPresignClient expectedURL None :: (unit, unit, unit, string, unit) presigner)
              (Some ()) ()
              (PutObjectInput_zero\<lparr>Bucket := Some ''test-bucket'',
                                   Key := Some ''uploads/test-file.txt''\<rparr>)
              [\<lambda>po. po\<lparr>Expires := 15 * Minute\<rparr>] () = (Returns (Some r, None), s')
          \<and> expectedURL = URL r
          \<and> URL r \<noteq> [] \<and> Contains (URL r) ''test-bucket''
          \<and> Contains (URL r) ''uploads/test-file.txt'')
   \<and> (\<exists>r s'. (mockPresignClient escapedURL None :: (unit, unit, unit, string, unit) presigner)
              (Some ()) ()
              (PutObjectInput_zero\<lparr>Bucket := Some ''test-bucket'',
                                   Key := Some ''uploads/my file.txt''\<rparr>)
              [\<lambda>po. po\<lparr>Expires := 15 * Minute\<rparr>] () = (Returns (Some r, None), s')
          \<and> escapedURL = URL r
          \<and> \<not> Contains (URL r) ''uploads/my file.txt'')"
proof -
  let ?c = "mockPresignClient expectedURL None :: (unit, unit, unit, string, unit) presigner"
  let ?d = "mockPresignClient escapedURL None :: (unit, unit, unit, string, unit) presigner"
  let ?prov = "\<lparr>bucket = ''test-bucket'', presignClient = Some ()\<rparr>"
  have h1: "deref (heap (testWorld ())) (Some 0) = Some ?prov"
    by (simp add: deref_def testWorld_def)
  have h2: "PresignedUploadURL ?c (Some 0) () ''uploads/test-file.txt'' (15 * Minute) (testWorld ())
              = (Returns (expectedURL, None), testWorld ())"
    by (simp add: PresignedUploadURL_def mockPresignClient_def testWorld_def deref_def)
  have h3: "PresignedUploadURL ?d (Some 0) () ''uploads/my file.txt'' (15 * Minute) (testWorld ())
              = (Returns (escapedURL, None), testWorld ())"
    by (simp add: PresignedUploadURL_def mockPresignClient_def testWorld_def deref_def)
  have wf: "expectedURL \<noteq> [] \<and> Contains expectedURL ''test-bucket''
            \<and> Contains expectedURL ''uploads/test-file.txt''"
    unfolding Contains_def expectedURL_def by code_simp
  have nc: "\<not> Contains escapedURL ''uploads/my file.txt''"
    unfolding Contains_def escapedURL_def by code_simp
  from PresignedUploadURL_url_of_client [where c = ?c, OF h1 h2] wf
  have a: "\<exists>r s'. ?c (Some ()) ()
              (PutObjectInput_zero\<lparr>Bucket := Some ''test-bucket'',
                                   Key := Some ''uploads/test-file.txt''\<rparr>)
              [\<lambda>po. po\<lparr>Expires := 15 * Minute\<rparr>] () = (Returns (Some r, None), s')
          \<and> expectedURL = URL r
          \<and> URL r \<noteq> [] \<and> Contains (URL r) ''test-bucket''
          \<and> Contains (URL r) ''uploads/test-file.txt''"
    by (auto simp: testWorld_def)
  from PresignedUploadURL_url_of_client [where c = ?d, OF h1 h3] nc
  have b: "\<exists>r s'. ?d (Some ()) ()
              (PutObjectInput_zero\<lparr>Bucket := Some ''test-bucket'',
                                   Key := Some ''uploads/my file.txt''\<rparr>)
              [\<lambda>po. po\<lparr>Expires := 15 * Minute\<rparr>] () = (Returns (Some r, None), s')
          \<and> escapedURL = URL r
          \<and> \<not> Contains (URL r) ''uploads/my file.txt''"
    by (auto simp: testWorld_def)
  from a b show ?thesis by (rule conjI)
qed


section \<open>A provider in use\<close>

lemma runCalls_recording:
  assumes "deref (heap w) p = Some prov"
  shows "heap (snd (runCalls (recording c) p cs w)) = heap w
         \<and> snd (sdk (snd (runCalls (recording c) p cs w)))
             = snd (sdk w) @ map (\<lambda>(ctx, destination, expires).
                  (presignClient prov, ctx,
                   PutObjectInput_zero\<lparr>Bucket := Some (bucket prov), Key := Some destination\<rparr>,
                   [\<lambda>po. po\<lparr>Expires := expires\<rparr>])) cs"
  using assms
proof (induction cs arbitrary: w)
  case Nil
  then show ?case by simp
next
  case (Cons call cs)
  obtain ctx destination expires where call: "call = (ctx, destination, expires)"
    by (cases call) auto
  obtain r w' where step: "PresignedUploadURL (recording c) p ctx destination expires w = (r, w')"
    by (cases "PresignedUploadURL (recording c) p ctx destination expires w") auto
  from step have hw': "heap w' = heap w"
    using PresignedUploadURL_heap [of "recording c" p ctx destination expires w] by simp
  with Cons.prems have d': "deref (heap w') p = Some prov" by simp
  from step PresignedUploadURL_recording [OF Cons.prems, of c ctx destination expires]
  have log: "snd (sdk w') = snd (sdk w) @ [(presignClient prov, ctx,
                   PutObjectInput_zero\<lparr>Bucket := Some (bucket prov), Key := Some destination\<rparr>,
                   [\<lambda>po. po\<lparr>Expires := expires\<rparr>])]"
    by auto
  from Cons.IH [OF d'] hw' log call step show ?case
    by (auto split: prod.splits)
qed

text \<open>
  C6. A provider that New has constructed for the bucket \<open>b\<close> holds \<open>b\<close> and a presign
  client; after any number of PresignedUploadURL calls it still does, and every one of those
  calls sent the signing client a request for exactly the bucket \<open>b\<close> and the key the caller
  gave, through the stored client.
\<close>

theorem New_then_calls:
  assumes "New LoadDefaultConfig NewFromConfig NewPresignClient ctx0 bkt region w = ((p, None), w1)"
  shows "\<exists>pc. deref (heap w1) p = Some \<lparr>bucket = bkt, presignClient = Some pc\<rparr>
          \<and> (\<forall>cs. deref (heap (snd (runCalls (recording c) p cs w1))) p
                     = Some \<lparr>bucket = bkt, presignClient = Some pc\<rparr>
                 \<and> snd (sdk (snd (runCalls (recording c) p cs w1)))
                     = snd (sdk w1) @ map (\<lambda>(ctx, destination, expires).
                         (Some pc, ctx,
                          PutObjectInput_zero\<lparr>Bucket := Some bkt, Key := Some destination\<rparr>,
                          [\<lambda>po. po\<lparr>Expires := expires\<rparr>])) cs)"
proof -
  from assms obtain pc where d: "deref (heap w1) p = Some \<lparr>bucket = bkt, presignClient = Some pc\<rparr>"
    by (auto simp: New_def deref_def Let_def split: prod.splits if_splits)
  from runCalls_recording [OF d, of c] d show ?thesis by simp
qed

theorem New_then_calls_witness:
  "New (stubLoadDefaultConfig (None :: string option)) (\<lambda>cfg. cfg) (\<lambda>cl. ())
       () ''my-bucket'' ''us-west-2'' (testWorld ((), [] :: (unit, unit, unit) call list))
     = ((Some 1, None),
        \<lparr>heap = [\<lparr>bucket = ''test-bucket'', presignClient = Some ()\<rparr>,
                 \<lparr>bucket = ''my-bucket'', presignClient = Some ()\<rparr>],
         sdk = ((), [])\<rparr>)
   \<and> map (\<lambda>(rcv, ctx, params, optFns). (Bucket params, Key params))
         (snd (sdk (snd (runCalls
            (recording (mockPresignClient expectedURL None
               :: (unit, unit, unit, string, unit) presigner))
            (Some 1) [((), ''a.txt'', 15 * Minute), ((), ''b.txt'', 30 * Minute)]
            \<lparr>heap = [\<lparr>bucket = ''test-bucket'', presignClient = Some ()\<rparr>,
                     \<lparr>bucket = ''my-bucket'', presignClient = Some ()\<rparr>],
             sdk = ((), [])\<rparr>))))
       = [(Some ''my-bucket'', Some ''a.txt''), (Some ''my-bucket'', Some ''b.txt'')]"
proof -
  let ?c = "mockPresignClient expectedURL None :: (unit, unit, unit, string, unit) presigner"
  let ?w1 = "\<lparr>heap = [\<lparr>bucket = ''test-bucket'', presignClient = Some ()\<rparr>,
                     \<lparr>bucket = ''my-bucket'', presignClient = Some ()\<rparr>],
             sdk = ((), [] :: (unit, unit, unit) call list)\<rparr>"
  have h: "New (stubLoadDefaultConfig (None :: string option)) (\<lambda>cfg. cfg) (\<lambda>cl. ())
       () ''my-bucket'' ''us-west-2'' (testWorld ((), [])) = ((Some 1, None), ?w1)"
    by (simp add: New_def stubLoadDefaultConfig_def testWorld_def)
  from New_then_calls [OF h, of ?c] obtain pc where
    "\<forall>cs. snd (sdk (snd (runCalls (recording ?c) (Some 1) cs ?w1)))
            = snd (sdk ?w1) @ map (\<lambda>(ctx, destination, expires).
                         (Some pc, ctx,
                          PutObjectInput_zero\<lparr>Bucket := Some ''my-bucket'', Key := Some destination\<rparr>,
                          [\<lambda>po. po\<lparr>Expires := expires\<rparr>])) cs"
    by blast
  then have e: "snd (sdk (snd (runCalls (recording ?c) (Some 1)
                 [((), ''a.txt'', 15 * Minute), ((), ''b.txt'', 30 * Minute)] ?w1)))
            = snd (sdk ?w1) @ map (\<lambda>(ctx, destination, expires).
                         (Some pc, ctx,
                          PutObjectInput_zero\<lparr>Bucket := Some ''my-bucket'', Key := Some destination\<rparr>,
                          [\<lambda>po. po\<lparr>Expires := expires\<rparr>]))
                 [((), ''a.txt'', 15 * Minute), ((), ''b.txt'', 30 * Minute)]"
    by (rule spec)
  show ?thesis
  proof (intro conjI)
    show "New (stubLoadDefaultConfig (None :: string option)) (\<lambda>cfg. cfg) (\<lambda>cl. ())
       () ''my-bucket'' ''us-west-2'' (testWorld ((), [])) = ((Some 1, None), ?w1)"
      by (rule h)
    show "map (\<lambda>(rcv, ctx, params, optFns). (Bucket params, Key params))
         (snd (sdk (snd (runCalls (recording ?c)
            (Some 1) [((), ''a.txt'', 15 * Minute), ((), ''b.txt'', 30 * Minute)] ?w1))))
       = [(Some ''my-bucket'', Some ''a.txt''), (Some ''my-bucket'', Some ''b.txt'')]"
      unfolding e by simp
  qed
qed

end
